theory Spec2Isabelle
  imports Complex_Main
begin

section \<open>Time windows of the metadata module (wsgi/modules/metadata.py)\<close>

text \<open>
  The theory embeds the three methods of \<^verbatim>\<open>WI_Module\<close> that compute time windows:
  \<^verbatim>\<open>__timewindows_tw\<close> (explicit window), \<^verbatim>\<open>__timewindows_ev\<close> (window relative to
  the arrival of a phase of an event) with its helper \<^verbatim>\<open>__isphase\<close>, and the entry
  point \<^verbatim>\<open>timewindows\<close> that chooses between them.

  Conventions of the embedding.
  \<^item> Times (\<^verbatim>\<open>datetime\<close>), durations (\<^verbatim>\<open>timedelta\<close>), coordinates and offsets
    (\<^verbatim>\<open>float\<close>) are real numbers; a time is a number of seconds. Rounding and
    not-a-number values of the floating point arithmetic are not modelled.
  \<^item> A raised exception is the left injection of a sum type. Every exception the methods
    raise themselves is a \<^verbatim>\<open>wsgicomm.WIClientError\<close>; the class is declared outside the
    module and is taken to derive from \<^verbatim>\<open>Exception\<close>, so that
    \<^verbatim>\<open>except Exception\<close> catches it.
  \<^item> The inventory cache (\<^verbatim>\<open>self.ic\<close>), the travel time table (\<^verbatim>\<open>self.ttt\<close>),
    \<^verbatim>\<open>Math.delazi\<close>, the configured \<^verbatim>\<open>self.max_lines\<close> and the parsers of the
    request parameters are collaborators of the module; they are the fields of the
    record \<open>env\<close>.
  \<^item> \<^verbatim>\<open>logs.error\<close> appends an entry to the list \<open>logs\<close> of the accumulator.
\<close>

subsection \<open>Data\<close>

text \<open>An entry of the list returned by \<^verbatim>\<open>ttt.compute\<close>: \<^verbatim>\<open>tt.phase\<close>, \<^verbatim>\<open>tt.time\<close>.\<close>

record arrival =
  phase :: string
  time :: real

text \<open>The dictionary returned by \<^verbatim>\<open>ic.getStreamInfo\<close>; \<open>size_val\<close> is its key \<^verbatim>\<open>'size'\<close>.\<close>

record streaminfo =
  latitude :: real
  longitude :: real
  elevation :: real
  size_val :: nat

text \<open>
  A stream key \<^verbatim>\<open>nscl\<close> is a list of strings, an event \<^verbatim>\<open>ev\<close> a list of fields. A
  field of an event is given with the outcome of its conversion (\<^verbatim>\<open>float\<close> for the
  first three, \<^verbatim>\<open>DateTimeAttr().fromxml\<close> for the fourth): \<open>None\<close> when the
  conversion raises \<^verbatim>\<open>TypeError\<close> or \<^verbatim>\<open>ValueError\<close>.
\<close>

type_synonym nscl = "string list"
type_synonym event = "real option list"

text \<open>The tuple appended to \<^verbatim>\<open>result\<close>:
  \<^verbatim>\<open>(start_time, end_time, net, sta, cha, loc, streamInfo['size'])\<close>.\<close>

type_synonym timewindow = "real \<times> real \<times> string \<times> string \<times> string \<times> string \<times> nat"

text \<open>
  The argument of a \<^verbatim>\<open>WIClientError\<close>: a literal text, or the text
  \<^verbatim>\<open>"invalid stream: " + str(nscl)\<close> and \<^verbatim>\<open>"invalid event: " + str(ev)\<close>, kept with the
  offending value in place of its rendering.
\<close>

datatype message = Text string | InvalidStream nscl | InvalidEvent event

datatype error = WIClientError message

text \<open>The calls of \<^verbatim>\<open>logs.error\<close>, in the order of the source.\<close>

datatype log_entry =
    ComputeException string
  | LoopException error
  | StartPhaseNotFound string
  | EndPhaseNotFound string

record acc =
  result :: "timewindow list"
  logs :: "log_entry list"

record env =
  getStreamInfo :: "real \<Rightarrow> real \<Rightarrow> string \<Rightarrow> string \<Rightarrow> string \<Rightarrow> string \<Rightarrow> streaminfo option"
  compute :: "real \<Rightarrow> real \<Rightarrow> real \<Rightarrow> real \<Rightarrow> real \<Rightarrow> real \<Rightarrow> string + arrival list"
  delazi :: "real \<Rightarrow> real \<Rightarrow> real \<Rightarrow> real \<Rightarrow> real"
  max_lines :: int
  loads_streams :: "string \<Rightarrow> nscl list option"
  loads_events :: "string \<Rightarrow> event list option"
  fromxml :: "string \<Rightarrow> real option"
  to_float :: "string \<Rightarrow> real option"

subsection \<open>Strings\<close>

text \<open>\<^verbatim>\<open>s.startswith(p)\<close>\<close>

fun startswith :: "string \<Rightarrow> string \<Rightarrow> bool" where
  "startswith s [] = True"
| "startswith [] (p # ps) = False"
| "startswith (c # cs) (p # ps) = (c = p \<and> startswith cs ps)"

text \<open>The tail of the three messages about a wrong phase:
  \<^verbatim>\<open>received! Only "P" and "S" are implemented.\<close>\<close>

definition only_P_and_S :: string where
  "only_P_and_S =
     '' received! Only '' @ [CHR 0x22] @ ''P'' @ [CHR 0x22] @ '' and '' @
     [CHR 0x22] @ ''S'' @ [CHR 0x22] @ '' are implemented.''"

subsection \<open>\<^verbatim>\<open>__timewindows_tw\<close>\<close>

text \<open>Lines 331 to 341, the same in both resolvers: the key must have four components.\<close>

definition check_nscl :: "nscl \<Rightarrow> error + (string \<times> string \<times> string \<times> string)" where
  "check_nscl nscl =
     (if length nscl \<noteq> 4 then Inl (WIClientError (InvalidStream nscl))
      else Inr (nscl ! 0, nscl ! 1, nscl ! 2, nscl ! 3))"

text \<open>Lines 345 to 349, the same in both resolvers: append, then compare the length
  with \<^verbatim>\<open>max_lines\<close>.\<close>

definition append_checked :: "env \<Rightarrow> timewindow \<Rightarrow> acc \<Rightarrow> error + acc" where
  "append_checked e tw a =
     (let a' = a\<lparr>result := result a @ [tw]\<rparr>
      in if int (length (result a')) > max_lines e
         then Inl (WIClientError (Text ''maximum request size exceeded''))
         else Inr a')"

text \<open>The body of the loop of \<^verbatim>\<open>__timewindows_tw\<close>.\<close>

definition tw_step :: "env \<Rightarrow> real \<Rightarrow> real \<Rightarrow> nscl \<Rightarrow> acc \<Rightarrow> error + acc" where
  "tw_step e start_time end_time nscl a =
     (case check_nscl nscl of
        Inl err \<Rightarrow> Inl err
      | Inr (net, sta, cha, loc) \<Rightarrow>
          (case getStreamInfo e start_time end_time net sta cha loc of
             None \<Rightarrow> Inr a
           | Some streamInfo \<Rightarrow>
               append_checked e
                 (start_time, end_time, net, sta, cha, loc, size_val streamInfo) a))"

fun tw_loop :: "env \<Rightarrow> real \<Rightarrow> real \<Rightarrow> nscl list \<Rightarrow> acc \<Rightarrow> error + acc" where
  "tw_loop e start_time end_time [] a = Inr a"
| "tw_loop e start_time end_time (nscl # streams) a =
     (case tw_step e start_time end_time nscl a of
        Inl err \<Rightarrow> Inl err
      | Inr a' \<Rightarrow> tw_loop e start_time end_time streams a')"

definition timewindows_tw :: "env \<Rightarrow> nscl list \<Rightarrow> real \<Rightarrow> real \<Rightarrow> error + timewindow list" where
  "timewindows_tw e streams start_time end_time =
     map_sum id result (tw_loop e start_time end_time streams \<lparr>result = [], logs = []\<rparr>)"

subsection \<open>\<^verbatim>\<open>__isphase\<close>\<close>

definition isphase :: "string \<Rightarrow> string \<Rightarrow> error + bool" where
  "isphase ttphase ph =
     (if ph = ''P'' then
        (if ttphase \<in> set [''P'', ''Pg'', ''Pb'', ''Pn'', ''Pdif'', ''Pdiff'']
         then Inr True else Inr False)
      else if ph = ''S'' then
        (if ttphase \<in> set [''S'', ''Sg'', ''Sb'', ''Sn'', ''Sdif'', ''Sdiff'']
            \<or> startswith ttphase ''SKS''
         then Inr True else Inr False)
      else Inl (WIClientError (Text (''Wrong phase'' @ only_P_and_S))))"

subsection \<open>\<^verbatim>\<open>__timewindows_ev\<close>\<close>

definition delta_threshold :: real where
  "delta_threshold = 120"

text \<open>
  The two loops over \<^verbatim>\<open>ttlist\<close> (lines 452 to 464 and 466 to 479) differ in the
  variable they assign and in one word of the message, \<open>which\<close>. The value is the
  variable after the loop (\<open>None\<close> when no entry assigned it), or the exception.
\<close>

fun scan_phase ::
  "string \<Rightarrow> string \<Rightarrow> real \<Rightarrow> real \<Rightarrow> real \<Rightarrow> arrival list \<Rightarrow> error + real option" where
  "scan_phase which ph offset delta ev_time [] = Inr None"
| "scan_phase which ph offset delta ev_time (tt # ttlist) =
     (if ph = ''P'' \<and> delta \<ge> delta_threshold then
        (if startswith (phase tt) ''PKP'' \<or> startswith (phase tt) ''PKiKP''
         then Inr (Some (ev_time + (time tt + offset * 60)))
         else scan_phase which ph offset delta ev_time ttlist)
      else if ph = ''S'' \<or> (ph = ''P'' \<and> delta < delta_threshold) then
        (case isphase (phase tt) ph of
           Inl err \<Rightarrow> Inl err
         | Inr b \<Rightarrow>
             if b then Inr (Some (ev_time + (time tt + offset * 60)))
             else scan_phase which ph offset delta ev_time ttlist)
      else Inl (WIClientError (Text (''Wrong '' @ which @ only_P_and_S))))"

text \<open>The \<^verbatim>\<open>try\<close> block of lines 451 to 479: the second loop runs when the first
  has not raised.\<close>

definition scan_both ::
  "string \<Rightarrow> real \<Rightarrow> string \<Rightarrow> real \<Rightarrow> real \<Rightarrow> real \<Rightarrow> arrival list
     \<Rightarrow> error + (real option \<times> real option)" where
  "scan_both startphase startoffset endphase endoffset delta ev_time ttlist =
     (case scan_phase ''startphase'' startphase startoffset delta ev_time ttlist of
        Inl err \<Rightarrow> Inl err
      | Inr start_time \<Rightarrow>
          (case scan_phase ''endphase'' endphase endoffset delta ev_time ttlist of
             Inl err \<Rightarrow> Inl err
           | Inr end_time \<Rightarrow> Inr (start_time, end_time)))"

text \<open>Lines 485 to 489: the two diagnostics about a phase that was not found.\<close>

definition not_found_logs :: "string \<Rightarrow> string \<Rightarrow> real option \<Rightarrow> real option \<Rightarrow> log_entry list" where
  "not_found_logs startphase endphase start_time end_time =
     (if start_time = None then [StartPhaseNotFound startphase] else []) @
     (if end_time = None then [EndPhaseNotFound endphase] else [])"

text \<open>
  The body of the inner loop (lines 409 to 499) for one event, already converted, and
  one stream key. \<^verbatim>\<open>continue\<close> returns the accumulator, \<^verbatim>\<open>raise\<close> an error.
\<close>

definition ev_step ::
  "env \<Rightarrow> string \<Rightarrow> real \<Rightarrow> string \<Rightarrow> real \<Rightarrow> real \<times> real \<times> real \<times> real \<Rightarrow> nscl \<Rightarrow> acc
     \<Rightarrow> error + acc" where
  "ev_step e startphase startoffset endphase endoffset evp nscl a =
     (case evp of (ev_lat, ev_lon, ev_dep, ev_time) \<Rightarrow>
      (case check_nscl nscl of
         Inl err \<Rightarrow> Inl err
       | Inr (net, sta, cha, loc) \<Rightarrow>
           (case getStreamInfo e ev_time ev_time net sta cha loc of
              None \<Rightarrow> Inr a
            | Some streamInfo \<Rightarrow>
                (let st_lat = latitude streamInfo;
                     st_lon = longitude streamInfo;
                     st_alt = elevation streamInfo;
                     delta = delazi e ev_lat ev_lon st_lat st_lon
                 in case compute e ev_lat ev_lon ev_dep st_lat st_lon st_alt of
                      Inl exn \<Rightarrow> Inr (a\<lparr>logs := logs a @ [ComputeException exn]\<rparr>)
                    | Inr ttlist \<Rightarrow>
                        (case scan_both startphase startoffset endphase endoffset
                                delta ev_time ttlist of
                           Inl err \<Rightarrow> Inr (a\<lparr>logs := logs a @ [LoopException err]\<rparr>)
                         | Inr (start_time, end_time) \<Rightarrow>
                             (let a1 = a\<lparr>logs := logs a @
                                        not_found_logs startphase endphase start_time end_time\<rparr>
                              in case (start_time, end_time) of
                                   (Some s, Some t) \<Rightarrow>
                                     (case getStreamInfo e s t net sta cha loc of
                                        None \<Rightarrow> Inr a1
                                      | Some streamInfo2 \<Rightarrow>
                                          append_checked e
                                            (s, t, net, sta, cha, loc, size_val streamInfo2) a1)
                                 | _ \<Rightarrow> Inr a1))))))"

fun streams_loop ::
  "env \<Rightarrow> string \<Rightarrow> real \<Rightarrow> string \<Rightarrow> real \<Rightarrow> real \<times> real \<times> real \<times> real \<Rightarrow> nscl list \<Rightarrow> acc
     \<Rightarrow> error + acc" where
  "streams_loop e startphase startoffset endphase endoffset evp [] a = Inr a"
| "streams_loop e startphase startoffset endphase endoffset evp (nscl # streams) a =
     (case ev_step e startphase startoffset endphase endoffset evp nscl a of
        Inl err \<Rightarrow> Inl err
      | Inr a' \<Rightarrow> streams_loop e startphase startoffset endphase endoffset evp streams a')"

text \<open>Lines 396 to 406: the event must have four fields, each convertible.\<close>

definition check_ev :: "event \<Rightarrow> error + (real \<times> real \<times> real \<times> real)" where
  "check_ev ev =
     (if length ev \<noteq> 4 then Inl (WIClientError (InvalidEvent ev))
      else case (ev ! 0, ev ! 1, ev ! 2, ev ! 3) of
             (Some ev_lat, Some ev_lon, Some ev_dep, Some ev_time) \<Rightarrow>
               Inr (ev_lat, ev_lon, ev_dep, ev_time)
           | _ \<Rightarrow> Inl (WIClientError (InvalidEvent ev)))"

fun events_loop ::
  "env \<Rightarrow> nscl list \<Rightarrow> string \<Rightarrow> real \<Rightarrow> string \<Rightarrow> real \<Rightarrow> event list \<Rightarrow> acc \<Rightarrow> error + acc" where
  "events_loop e streams startphase startoffset endphase endoffset [] a = Inr a"
| "events_loop e streams startphase startoffset endphase endoffset (ev # events) a =
     (case check_ev ev of
        Inl err \<Rightarrow> Inl err
      | Inr evp \<Rightarrow>
          (case streams_loop e startphase startoffset endphase endoffset evp streams a of
             Inl err \<Rightarrow> Inl err
           | Inr a' \<Rightarrow> events_loop e streams startphase startoffset endphase endoffset events a'))"

text \<open>The run of \<^verbatim>\<open>__timewindows_ev\<close> with what it has logged, and the value it returns.\<close>

definition timewindows_ev_run ::
  "env \<Rightarrow> nscl list \<Rightarrow> event list \<Rightarrow> string \<Rightarrow> real \<Rightarrow> string \<Rightarrow> real \<Rightarrow> error + acc" where
  "timewindows_ev_run e streams events startphase startoffset endphase endoffset =
     events_loop e streams startphase startoffset endphase endoffset events
       \<lparr>result = [], logs = []\<rparr>"

definition timewindows_ev ::
  "env \<Rightarrow> nscl list \<Rightarrow> event list \<Rightarrow> string \<Rightarrow> real \<Rightarrow> string \<Rightarrow> real \<Rightarrow> error + timewindow list" where
  "timewindows_ev e streams events startphase startoffset endphase endoffset =
     map_sum id result
       (timewindows_ev_run e streams events startphase startoffset endphase endoffset)"

subsection \<open>\<^verbatim>\<open>timewindows\<close>\<close>

text \<open>
  \<^verbatim>\<open>params\<close> is a dictionary from parameter names to the strings received; it is an
  association list whose keys are distinct, in the order of iteration.
  \<^verbatim>\<open>reduce(lambda a, b: a + (b in names), params, 0)\<close> runs over its keys.
\<close>

type_synonym params = "(string \<times> string) list"

definition params_count :: "string list \<Rightarrow> params \<Rightarrow> nat" where
  "params_count names params =
     foldl (\<lambda>a b. a + (if b \<in> set names then 1 else 0)) 0 (map fst params)"

definition tw_params :: "string list" where
  "tw_params = [''start'', ''end'']"

definition ev_params :: "string list" where
  "ev_params = [''events'', ''startphase'', ''startoffset'', ''endphase'', ''endoffset'']"

datatype mode = Tw | Ev

text \<open>Lines 519 to 535.\<close>

definition timewindows_mode :: "params \<Rightarrow> error + mode" where
  "timewindows_mode params =
     (if ''streams'' \<notin> set (map fst params) then Inl (WIClientError (Text ''missing streams''))
      else
        let tw_params_count = params_count tw_params params;
            ev_params_count = params_count ev_params params
        in if tw_params_count = length tw_params \<and> ev_params_count = 0 then Inr Tw
           else if ev_params_count = length ev_params \<and> tw_params_count = 0 then Inr Ev
           else Inl (WIClientError (Text ''invalid set of parameters'')))"

text \<open>
  \<^verbatim>\<open>__get_param\<close> applies a conversion to \<^verbatim>\<open>params.get(name)\<close>. A conversion that
  raises \<^verbatim>\<open>TypeError\<close> or \<^verbatim>\<open>ValueError\<close> returns \<open>None\<close>; the resulting
  \<^verbatim>\<open>ValueError("invalid " + name)\<close> becomes a \<^verbatim>\<open>WIClientError\<close> at line 553.
  \<open>on_string\<close> lifts a conversion of strings that raises \<^verbatim>\<open>TypeError\<close> on \<^verbatim>\<open>None\<close>;
  \<^verbatim>\<open>str\<close> raises on nothing.
\<close>

definition get_param :: "params \<Rightarrow> (string option \<Rightarrow> 'a option) \<Rightarrow> string \<Rightarrow> error + 'a" where
  "get_param params conv name =
     (case conv (map_of params name) of
        None \<Rightarrow> Inl (WIClientError (Text (''invalid '' @ name)))
      | Some v \<Rightarrow> Inr v)"

definition on_string :: "(string \<Rightarrow> 'a option) \<Rightarrow> string option \<Rightarrow> 'a option" where
  "on_string f v = (case v of None \<Rightarrow> None | Some s \<Rightarrow> f s)"

definition str :: "string option \<Rightarrow> string option" where
  "str v = (case v of None \<Rightarrow> Some ''None'' | Some s \<Rightarrow> Some s)"

text \<open>Lines 537 to 559; the value is \<^verbatim>\<open>result\<close> before \<^verbatim>\<open>json.dumps\<close>.\<close>

definition timewindows :: "env \<Rightarrow> params \<Rightarrow> error + timewindow list" where
  "timewindows e params =
     (case timewindows_mode params of
        Inl err \<Rightarrow> Inl err
      | Inr m \<Rightarrow>
          (case get_param params (on_string (loads_streams e)) ''streams'' of
             Inl err \<Rightarrow> Inl err
           | Inr streams \<Rightarrow>
               (case m of
                  Tw \<Rightarrow>
                    (case get_param params (on_string (fromxml e)) ''start'' of
                       Inl err \<Rightarrow> Inl err
                     | Inr start_time \<Rightarrow>
                    (case get_param params (on_string (fromxml e)) ''end'' of
                       Inl err \<Rightarrow> Inl err
                     | Inr end_time \<Rightarrow> timewindows_tw e streams start_time end_time))
                | Ev \<Rightarrow>
                    (case get_param params (on_string (loads_events e)) ''events'' of
                       Inl err \<Rightarrow> Inl err
                     | Inr events \<Rightarrow>
                    (case get_param params str ''startphase'' of
                       Inl err \<Rightarrow> Inl err
                     | Inr startphase \<Rightarrow>
                    (case get_param params (on_string (to_float e)) ''startoffset'' of
                       Inl err \<Rightarrow> Inl err
                     | Inr startoffset \<Rightarrow>
                    (case get_param params str ''endphase'' of
                       Inl err \<Rightarrow> Inl err
                     | Inr endphase \<Rightarrow>
                    (case get_param params (on_string (to_float e)) ''endoffset'' of
                       Inl err \<Rightarrow> Inl err
                     | Inr endoffset \<Rightarrow>
                         timewindows_ev e streams events
                           startphase startoffset endphase endoffset))))))))"

section \<open>The rules of the specification\<close>

text \<open>
  The definitions of this section follow the specification of the module, not its
  code; the lemmas below relate the two.
\<close>

subsection \<open>Phase selection\<close>






subsection \<open>Outcome of a pair and accumulation\<close>

text \<open>
  Each channel (explicit window) or pair of an event and a channel (window relative to
  an event) has one outcome: a fatal error, nothing, or a time window. The outcomes are
  accumulated in order; an error ends the request, and so does a window that makes the
  result longer than the cap.
\<close>

type_synonym outcome = "error + timewindow option"

fun accumulate :: "int \<Rightarrow> outcome list \<Rightarrow> timewindow list \<Rightarrow> error + timewindow list" where
  "accumulate cap [] rs = Inr rs"
| "accumulate cap (Inl err # os) rs = Inl err"
| "accumulate cap (Inr None # os) rs = accumulate cap os rs"
| "accumulate cap (Inr (Some tw) # os) rs =
     (if int (length (rs @ [tw])) > cap
      then Inl (WIClientError (Text ''maximum request size exceeded''))
      else accumulate cap os (rs @ [tw]))"

text \<open>The windows among a list of outcomes.\<close>

fun emitted :: "outcome list \<Rightarrow> timewindow list" where
  "emitted [] = []"
| "emitted (Inr (Some tw) # os) = tw # emitted os"
| "emitted (_ # os) = emitted os"

text \<open>The channel validator: arity of the key, then existence in the window.\<close>

definition tw_outcome :: "env \<Rightarrow> real \<Rightarrow> real \<Rightarrow> nscl \<Rightarrow> outcome" where
  "tw_outcome e start_time end_time nscl =
     (if length nscl \<noteq> 4 then Inl (WIClientError (InvalidStream nscl))
      else case getStreamInfo e start_time end_time (nscl ! 0) (nscl ! 1) (nscl ! 2) (nscl ! 3) of
             None \<Rightarrow> Inr None
           | Some info \<Rightarrow>
               Inr (Some (start_time, end_time, nscl ! 0, nscl ! 1, nscl ! 2, nscl ! 3,
                          size_val info)))"






subsection \<open>A scenario\<close>

text \<open>
  The first scenario of the specification, used to instantiate the theorems: one station
  of network \<^verbatim>\<open>GE\<close> on the equator at longitude 1, an oracle that returns a P arrival
  after 20 seconds and an S arrival after 35 seconds and that fails for a negative depth,
  the distance of two points on the equator, and a cap given as parameter.
\<close>

definition scenario_info :: streaminfo where
  "scenario_info = \<lparr>latitude = 0, longitude = 1, elevation = 0, size_val = 1000\<rparr>"

definition scenario_ttlist :: "arrival list" where
  "scenario_ttlist = [\<lparr>phase = ''P'', time = 20\<rparr>, \<lparr>phase = ''S'', time = 35\<rparr>]"

definition scenario_env :: "int \<Rightarrow> env" where
  "scenario_env cap =
     \<lparr>getStreamInfo = (\<lambda>s t net sta cha loc. if net = ''GE'' then Some scenario_info else None),
      compute = (\<lambda>ev_lat ev_lon ev_dep st_lat st_lon st_alt.
                   if ev_dep < 0 then Inl ''depth'' else Inr scenario_ttlist),
      delazi = (\<lambda>lat1 lon1 lat2 lon2. \<bar>lon2 - lon1\<bar>),
      max_lines = cap,
      loads_streams = (\<lambda>s. if s = ''[]'' then Some [] else None),
      loads_events = (\<lambda>s. if s = ''[]'' then Some [] else None),
      fromxml = (\<lambda>s. if s = ''0'' then Some 0 else None),
      to_float = (\<lambda>s. if s = ''0'' then Some 0 else None)\<rparr>"

definition scenario_streams :: "nscl list" where
  "scenario_streams = [[''GE'', ''APE'', ''BHZ'', '''']]"

definition scenario_events :: "event list" where
  "scenario_events = [[Some 0, Some 0, Some 10, Some 0]]"

section \<open>The code follows the rules\<close>

lemmas scenario_defs = scenario_info_def scenario_ttlist_def scenario_env_def
  scenario_streams_def scenario_events_def

lemmas ev_defs = timewindows_ev_def timewindows_ev_run_def check_ev_def ev_step_def
  check_nscl_def scan_both_def isphase_def delta_threshold_def not_found_logs_def
  append_checked_def

subsection \<open>The scan of the arrivals\<close>
















subsection \<open>Accumulation\<close>

lemma accumulate_append:
  "accumulate cap (xs @ ys) rs =
     (case accumulate cap xs rs of Inl err \<Rightarrow> Inl err | Inr rs' \<Rightarrow> accumulate cap ys rs')"
  by (induction cap xs rs rule: accumulate.induct) simp_all

lemma accumulate_Cons:
  "accumulate cap (x # ys) rs =
     (case accumulate cap [x] rs of Inl err \<Rightarrow> Inl err | Inr rs' \<Rightarrow> accumulate cap ys rs')"
  using accumulate_append [of cap "[x]" ys rs] by simp


lemma accumulate_no_error:
  "accumulate cap os rs = Inr rs' \<Longrightarrow> Inl err \<notin> set os"
  by (induction cap os rs rule: accumulate.induct) (auto split: if_splits)


lemma accumulate_error:
  "accumulate cap os rs = Inl err \<Longrightarrow>
     Inl err \<in> set os \<or> err = WIClientError (Text ''maximum request size exceeded'')"
  by (induction cap os rs rule: accumulate.induct) (auto split: if_splits)


lemma accumulate_all_emitted:
  "\<forall>x \<in> set os. \<exists>tw. x = Inr (Some tw) \<Longrightarrow>
     accumulate cap os rs =
       (if int (length rs + length os) \<le> cap \<or> os = [] then Inr (rs @ emitted os)
        else Inl (WIClientError (Text ''maximum request size exceeded'')))"
proof (induction cap os rs rule: accumulate.induct)
  case (4 cap tw os rs)
  then show ?case by (cases os) auto
qed auto

lemma result_append_checked:
  "map_sum id result (append_checked e tw a) = accumulate (max_lines e) [Inr (Some tw)] (result a)"
  by (simp add: append_checked_def Let_def)


subsection \<open>The resolvers accumulate the outcomes\<close>


lemma tw_step_acc:
  "map_sum id result (tw_step e s t nscl a) =
     accumulate (max_lines e) [tw_outcome e s t nscl] (result a)"
  by (simp add: tw_step_def tw_outcome_def check_nscl_def result_append_checked
        split: option.splits)

lemma tw_loop_acc:
  "map_sum id result (tw_loop e s t streams a) =
     accumulate (max_lines e) (map (tw_outcome e s t) streams) (result a)"
proof (induction streams arbitrary: a)
  case Nil
  show ?case by simp
next
  case (Cons nscl streams)
  let ?rest = "map (tw_outcome e s t) streams"
  have split: "accumulate (max_lines e) (map (tw_outcome e s t) (nscl # streams)) (result a) =
     (case map_sum id result (tw_step e s t nscl a) of
        Inl err \<Rightarrow> Inl err | Inr rs' \<Rightarrow> accumulate (max_lines e) ?rest rs')"
    unfolding tw_step_acc list.map by (rule accumulate_Cons)
  show ?case
  proof (cases "tw_step e s t nscl a")
    case (Inl err)
    then show ?thesis unfolding split by simp
  next
    case (Inr a')
    then show ?thesis unfolding split using Cons.IH [of a'] by simp
  qed
qed

lemma timewindows_tw_acc:
  "timewindows_tw e streams s t = accumulate (max_lines e) (map (tw_outcome e s t) streams) []"
  by (simp add: timewindows_tw_def tw_loop_acc)





subsection \<open>What an emitted window says about its pair\<close>






subsection \<open>Independence of the cap, skipped pairs\<close>










lemma emitted_all_found:
  assumes "\<forall>nscl \<in> set streams. length nscl = 4 \<and>
             getStreamInfo e s t (nscl ! 0) (nscl ! 1) (nscl ! 2) (nscl ! 3) \<noteq> None"
  shows "emitted (map (tw_outcome e s t) streams) =
           map (\<lambda>nscl. (s, t, nscl ! 0, nscl ! 1, nscl ! 2, nscl ! 3,
                  size_val (the (getStreamInfo e s t (nscl ! 0) (nscl ! 1) (nscl ! 2) (nscl ! 3)))))
               streams"
  using assms by (induction streams) (auto simp: tw_outcome_def simp del: One_nat_def)

lemmas tw_defs = timewindows_tw_def tw_step_def check_nscl_def append_checked_def

subsection \<open>Counting the parameters\<close>

lemma foldl_count:
  "foldl (\<lambda>a b. a + (if b \<in> S then 1 else 0)) n ks = n + length (filter (\<lambda>k. k \<in> S) ks)"
  by (induction ks arbitrary: n) simp_all

lemma filter_card:
  assumes "distinct ks"
  shows "length (filter (\<lambda>k. k \<in> S) ks) = card (set ks \<inter> S)"
proof -
  from assms have "distinct (filter (\<lambda>k. k \<in> S) ks)" by simp
  then have "card (set (filter (\<lambda>k. k \<in> S) ks)) = length (filter (\<lambda>k. k \<in> S) ks)"
    by (rule distinct_card)
  moreover have "set (filter (\<lambda>k. k \<in> S) ks) = set ks \<inter> S" by auto
  ultimately show ?thesis by simp
qed

lemma params_count_card:
  assumes "distinct (map fst params)"
  shows "params_count names params = card (set (map fst params) \<inter> set names)"
  unfolding params_count_def foldl_count filter_card [OF assms] by simp

lemma params_count_all:
  assumes "distinct (map fst params)" "distinct names"
  shows "params_count names params = length names \<longleftrightarrow> set names \<subseteq> set (map fst params)"
proof
  assume "params_count names params = length names"
  with assms have "card (set (map fst params) \<inter> set names) = card (set names)"
    by (simp add: params_count_card distinct_card)
  then have "set (map fst params) \<inter> set names = set names"
    by (intro card_subset_eq) auto
  then show "set names \<subseteq> set (map fst params)" by blast
next
  assume "set names \<subseteq> set (map fst params)"
  then have "set (map fst params) \<inter> set names = set names" by blast
  with assms show "params_count names params = length names"
    by (simp add: params_count_card distinct_card)
qed

lemma params_count_none:
  assumes "distinct (map fst params)"
  shows "params_count names params = 0 \<longleftrightarrow> set names \<inter> set (map fst params) = {}"
  using assms by (auto simp: params_count_card)

section \<open>Properties\<close>



text \<open>
  C2. A start phase or end phase other than \<^verbatim>\<open>P\<close> and \<^verbatim>\<open>S\<close> is meant to fail the
  request: both loops raise a \<^verbatim>\<open>WIClientError\<close> for it. The \<^verbatim>\<open>raise\<close> stands inside
  the \<^verbatim>\<open>try\<close> block whose handler catches every \<^verbatim>\<open>Exception\<close>, so the error is
  logged and the pair skipped. In the scenario, the start phase \<^verbatim>\<open>X\<close> gives an empty
  result and one log entry instead of an error.
\<close>

theorem wrong_phase_not_fatal:
  "timewindows_ev_run (scenario_env 10) scenario_streams scenario_events ''X'' 0 ''P'' 0 =
     Inr \<lparr>result = [],
          logs = [LoopException (WIClientError (Text (''Wrong startphase'' @ only_P_and_S)))]\<rparr>
   \<and> timewindows_ev (scenario_env 10) scenario_streams scenario_events ''X'' 0 ''P'' 0 = Inr []"
  by (simp add: scenario_defs ev_defs)



text \<open>
  C4. At a distance of exactly 120 degrees a scan for the phase \<^verbatim>\<open>P\<close> takes the branch
  of the core phases: its value is the time of the first arrival whose name starts with
  \<^verbatim>\<open>PKP\<close> or \<^verbatim>\<open>PKiKP\<close>, whatever names of the P family the sequence holds. The test
  of the threshold is \<open>\<ge>\<close>.
\<close>

theorem scan_phase_at_threshold:
  "scan_phase which ''P'' offset 120 ev_time ttlist =
     Inr (map_option (\<lambda>tt. ev_time + (time tt + offset * 60))
            (find (\<lambda>tt. startswith (phase tt) ''PKP'' \<or> startswith (phase tt) ''PKiKP'') ttlist))"
  by (induction ttlist) (simp_all add: delta_threshold_def del: startswith.simps)

theorem scan_phase_at_threshold_witness:
  "scan_phase ''startphase'' ''P'' 0 120 0
     [\<lparr>phase = ''P'', time = 10\<rparr>, \<lparr>phase = ''PKPdf'', time = 20\<rparr>] = Inr (Some 20)"
  using scan_phase_at_threshold [of "''startphase''" 0 0
     "[\<lparr>phase = ''P'', time = 10\<rparr>, \<lparr>phase = ''PKPdf'', time = 20\<rparr>]"]
  by simp

text \<open>
  C5, amended. When the parameter \<^verbatim>\<open>streams\<close> is supplied: the explicit mode is selected
  if and only if \<^verbatim>\<open>start\<close> and \<^verbatim>\<open>end\<close> are supplied and none of the five parameters of
  the other mode is; the mode relative to events if and only if all five are supplied
  and neither \<^verbatim>\<open>start\<close> nor \<^verbatim>\<open>end\<close>; every other combination fails with the error
  about an invalid set of parameters. The keys of the dictionary are distinct.
\<close>

theorem timewindows_mode_selection:
  assumes "distinct (map fst params)"
    and "''streams'' \<in> set (map fst params)"
  shows "(timewindows_mode params = Inr Tw \<longleftrightarrow>
            set tw_params \<subseteq> set (map fst params) \<and> set ev_params \<inter> set (map fst params) = {})
       \<and> (timewindows_mode params = Inr Ev \<longleftrightarrow>
            set ev_params \<subseteq> set (map fst params) \<and> set tw_params \<inter> set (map fst params) = {})
       \<and> (timewindows_mode params \<noteq> Inr Tw \<and> timewindows_mode params \<noteq> Inr Ev \<longrightarrow>
            timewindows_mode params = Inl (WIClientError (Text ''invalid set of parameters'')))"
proof -
  have dtw: "distinct tw_params" and dev: "distinct ev_params"
    by (simp_all add: tw_params_def ev_params_def)
  let ?K = "set (map fst params)"
  let ?tw = "set tw_params \<subseteq> ?K" and ?ev = "set ev_params \<subseteq> ?K"
  let ?notw = "set tw_params \<inter> ?K = {}" and ?noev = "set ev_params \<inter> ?K = {}"
  have mode: "timewindows_mode params =
      (if ?tw \<and> ?noev then Inr Tw
       else if ?ev \<and> ?notw then Inr Ev
       else Inl (WIClientError (Text ''invalid set of parameters'')))"
    using assms(2)
    by (simp add: timewindows_mode_def Let_def
          params_count_all [OF assms(1) dtw] params_count_all [OF assms(1) dev]
          params_count_none [OF assms(1)] del: set_map)
  have "''start'' \<in> set tw_params" by (simp add: tw_params_def)
  then have excl: "\<not> (?tw \<and> ?notw)" by blast
  show ?thesis unfolding mode using excl by auto
qed

text \<open>
  C5 as stated, without the condition on \<^verbatim>\<open>streams\<close>, fails: with exactly \<^verbatim>\<open>start\<close> and
  \<^verbatim>\<open>end\<close> supplied no mode is selected, and the error is the one about missing streams.
\<close>

theorem timewindows_mode_selection_counterexample:
  "set tw_params \<subseteq> set (map fst [(''start'', ''0''), (''end'', ''0'')]) \<and>
   set ev_params \<inter> set (map fst [(''start'', ''0''), (''end'', ''0'')]) = {} \<and>
   timewindows_mode [(''start'', ''0''), (''end'', ''0'')] =
     Inl (WIClientError (Text ''missing streams''))"
  by (simp add: timewindows_mode_def tw_params_def ev_params_def)

theorem timewindows_mode_selection_witness:
  "distinct (map fst [(''streams'', ''[]''), (''start'', ''0''), (''end'', ''0'')]) \<and>
   ''streams'' \<in> set (map fst [(''streams'', ''[]''), (''start'', ''0''), (''end'', ''0'')]) \<and>
   timewindows_mode [(''streams'', ''[]''), (''start'', ''0''), (''end'', ''0'')] = Inr Tw"
  using timewindows_mode_selection [of "[(''streams'', ''[]''), (''start'', ''0''), (''end'', ''0'')]"]
  by (simp add: tw_params_def ev_params_def)





text \<open>
  C8, amended. In the explicit mode, when every channel key has four components, the
  cache returns an entry for every channel over the window, and the number of channels
  does not exceed \<^verbatim>\<open>max_lines\<close>, the result has one window per channel, in the order of
  the input, each with the start and end time of the caller. Duplicates among the
  channels play no role.
\<close>

theorem tw_one_window_per_channel:
  assumes "\<forall>nscl \<in> set streams. length nscl = 4 \<and>
             getStreamInfo e s t (nscl ! 0) (nscl ! 1) (nscl ! 2) (nscl ! 3) \<noteq> None"
    and "int (length streams) \<le> max_lines e"
  shows "timewindows_tw e streams s t =
           Inr (map (\<lambda>nscl. (s, t, nscl ! 0, nscl ! 1, nscl ! 2, nscl ! 3,
                  size_val (the (getStreamInfo e s t (nscl ! 0) (nscl ! 1) (nscl ! 2) (nscl ! 3)))))
                streams)"
proof -
  from assms(1) have all: "\<forall>x \<in> set (map (tw_outcome e s t) streams). \<exists>tw. x = Inr (Some tw)"
    by (auto simp: tw_outcome_def simp del: One_nat_def)
  from accumulate_all_emitted [OF all, of "max_lines e" "[]"] assms(2)
  have "timewindows_tw e streams s t = Inr (emitted (map (tw_outcome e s t) streams))"
    by (simp add: timewindows_tw_acc)
  then show ?thesis by (simp only: emitted_all_found [OF assms(1)])
qed

text \<open>
  C8 as stated, without the condition on \<^verbatim>\<open>max_lines\<close>, fails: two distinct channels
  that the cache knows, under a cap of one, give the error about the maximum request
  size and no window.
\<close>

theorem tw_one_window_per_channel_counterexample:
  "distinct [[''GE'', ''APE'', ''BHZ'', ''''], [''GE'', ''APE'', ''BHN'', '''']] \<and>
   length [''GE'', ''APE'', ''BHZ'', ''''] = 4 \<and>
   length [''GE'', ''APE'', ''BHN'', ''''] = 4 \<and>
   getStreamInfo (scenario_env 1) 0 10 ''GE'' ''APE'' ''BHZ'' '''' = Some scenario_info \<and>
   getStreamInfo (scenario_env 1) 0 10 ''GE'' ''APE'' ''BHN'' '''' = Some scenario_info \<and>
   timewindows_tw (scenario_env 1)
     [[''GE'', ''APE'', ''BHZ'', ''''], [''GE'', ''APE'', ''BHN'', '''']] 0 10 =
     Inl (WIClientError (Text ''maximum request size exceeded''))"
  by (simp add: scenario_defs tw_defs)

theorem tw_one_window_per_channel_witness:
  "length [''GE'', ''APE'', ''BHZ'', ''''] = 4 \<and>
   getStreamInfo (scenario_env 2) 0 10 ''GE'' ''APE'' ''BHZ'' '''' \<noteq> None \<and>
   length [''GE'', ''APE'', ''BHN'', ''''] = 4 \<and>
   getStreamInfo (scenario_env 2) 0 10 ''GE'' ''APE'' ''BHN'' '''' \<noteq> None \<and>
   int (length [[''GE'', ''APE'', ''BHZ'', ''''], [''GE'', ''APE'', ''BHN'', '''']])
     \<le> max_lines (scenario_env 2) \<and>
   timewindows_tw (scenario_env 2)
     [[''GE'', ''APE'', ''BHZ'', ''''], [''GE'', ''APE'', ''BHN'', '''']] 0 10 =
     Inr [(0, 10, ''GE'', ''APE'', ''BHZ'', '''', 1000), (0, 10, ''GE'', ''APE'', ''BHN'', '''', 1000)]"
  using tw_one_window_per_channel [of "[[''GE'', ''APE'', ''BHZ'', ''''], [''GE'', ''APE'', ''BHN'', '''']]"
      "scenario_env 2" 0 10]
  by (simp add: scenario_defs)

text \<open>
  C9. A request without the parameter \<^verbatim>\<open>streams\<close> fails with the error about missing
  streams, whatever the other parameters are; the check comes before the mode is chosen.
\<close>

theorem missing_streams:
  assumes "''streams'' \<notin> set (map fst params)"
  shows "timewindows e params = Inl (WIClientError (Text ''missing streams''))"
  using assms by (simp add: timewindows_def timewindows_mode_def)

theorem missing_streams_witness:
  "''streams'' \<notin> set (map fst [(''start'', ''0''), (''end'', ''0'')]) \<and>
   timewindows (scenario_env 10) [(''start'', ''0''), (''end'', ''0'')] =
     Inl (WIClientError (Text ''missing streams''))"
  using missing_streams [of "[(''start'', ''0''), (''end'', ''0'')]" "scenario_env 10"]
  by simp



end
